theory Spec2Isabelle
  imports Complex_Main
begin

section \<open>Numbers and errors\<close>

text \<open>
  The pricing columns (\<open>db.Float\<close>) and the results of Python's true division are taken as
  exact rationals: the model computes what the formulas of \<open>predictions.py\<close> denote, without
  the representation error of IEEE doubles. Token counts and credit costs after \<open>round\<close> are
  Python integers, modelled as \<open>int\<close>.
\<close>

datatype error = AttributeError | ZeroDivisionError

definition bind_err :: "error + 'a \<Rightarrow> ('a \<Rightarrow> error + 'b) \<Rightarrow> error + 'b" where
  "bind_err r f = (case r of Inl e \<Rightarrow> Inl e | Inr v \<Rightarrow> f v)"

text \<open>Python's \<open>a / b\<close> on numbers: raises ZeroDivisionError when \<open>b\<close> is zero.\<close>

definition py_truediv :: "rat \<Rightarrow> rat \<Rightarrow> error + rat" where
  "py_truediv a b = (if b = 0 then Inl ZeroDivisionError else Inr (a / b))"

text \<open>Python's \<open>round(x)\<close>: the nearest integer, a tie going to the even neighbour.\<close>

definition py_round :: "rat \<Rightarrow> int" where
  "py_round x =
     (let f = \<lfloor>x\<rfloor>; r = x - of_int f
      in if r < 1 / 2 then f
         else if 1 / 2 < r then f + 1
         else if even f then f else f + 1)"

text \<open>Python's \<open>round(x, 2)\<close>: the nearest multiple of one hundredth.\<close>

definition py_round_2 :: "rat \<Rightarrow> rat" where
  "py_round_2 x = of_int (py_round (x * 100)) / 100"

section \<open>Pricing configuration\<close>

text \<open>\<open>models/TokenCostConfig.py\<close>: the singleton row of dollar prices.\<close>

record TokenCostConfig =
  cost_per_credit :: rat
  cost_per_1m_input :: rat
  cost_per_1m_output :: rat
  o1_cost_per_credit :: rat
  o1_cost_per_1m_input :: rat
  o1_cost_per_1m_output :: rat
  dall_e_price_per_image :: rat

text \<open>
  \<open>models/CreditConfig.py\<close>: one row per action (the column is unique), so the table is a
  map from the action name to the row's modifier, and
  \<open>CreditConfig.query.filter_by(action=a).first()\<close> is the lookup of \<open>a\<close>.
\<close>

type_synonym CreditConfig = "string \<rightharpoonup> rat"

text \<open>\<open>config.modifier if config else 2\<close>\<close>

definition modifier_or_2 :: "CreditConfig \<Rightarrow> string \<Rightarrow> rat" where
  "modifier_or_2 credit_config action =
     (case credit_config action of Some m \<Rightarrow> m | None \<Rightarrow> 2)"

section \<open>Cost estimator (\<open>predictions.py\<close>)\<close>

text \<open>The dictionary returned by \<open>calculate_image_cost\<close>.\<close>

record image_cost =
  base_credit_cost :: rat
  modifier :: rat
  total_credit_cost :: rat

text \<open>
  The dictionary returned by the ten token estimators. The key \<open>output_tokens\<close> is
  \<open>predicted_output_tokens\<close> in the prediction functions, and \<open>total_cost\<close> is
  \<open>total_predicted_credit_cost\<close> there and \<open>total_actual_credit_cost\<close> in the
  reconciliation functions.
\<close>

record token_cost =
  input_tokens :: int
  output_tokens :: int
  input_tokens_per_credit :: rat
  output_tokens_per_credit :: rat
  base_credit_cost_input :: int
  modified_credit_cost_input :: int
  base_credit_cost_output :: int
  modified_credit_cost_output :: int
  total_cost :: int

text \<open>
  \<open>TokenCostConfig.query.first()\<close> is \<open>None\<close> on an empty table, and the attribute read
  that follows raises AttributeError.
\<close>

definition calculate_image_cost :: "TokenCostConfig option \<Rightarrow> CreditConfig \<Rightarrow> error + image_cost" where
  "calculate_image_cost tokenCostConfig credit_config =
     (case tokenCostConfig of
        None \<Rightarrow> Inl AttributeError
      | Some t \<Rightarrow>
          (let base = dall_e_price_per_image t;
               m = modifier_or_2 credit_config ''image''
           in Inr \<lparr>base_credit_cost = base, modifier = m, total_credit_cost = base * m\<rparr>))"

text \<open>
  The arithmetic that every token estimator writes out after reading its prices, in the
  order of the source: both tokens-per-credit figures, the base input cost, the base output
  cost, the two modified costs, the total. \<open>floor1\<close> says whether the function wraps its base
  costs in \<open>max(1, ...)\<close>.
\<close>

definition credit_arithmetic ::
  "bool \<Rightarrow> rat \<Rightarrow> rat \<Rightarrow> rat \<Rightarrow> rat \<Rightarrow> rat \<Rightarrow> int \<Rightarrow> int \<Rightarrow> error + token_cost" where
  "credit_arithmetic floor1 credit_cost_dollar cost_per_million_input cost_per_million_output
     modifier_input modifier_output input_token_count output_token_count =
     bind_err (py_truediv (credit_cost_dollar * 1000000) cost_per_million_input) (\<lambda>q_in.
     bind_err (py_truediv (credit_cost_dollar * 1000000) cost_per_million_output) (\<lambda>q_out.
     bind_err (py_truediv (of_int input_token_count) (py_round_2 q_in)) (\<lambda>r_in.
     bind_err (py_truediv (of_int output_token_count) (py_round_2 q_out)) (\<lambda>r_out.
       (let base_in = (if floor1 then max 1 (py_round r_in) else py_round r_in);
            base_out = (if floor1 then max 1 (py_round r_out) else py_round r_out);
            mod_in = py_round (of_int base_in * modifier_input);
            mod_out = py_round (of_int base_out * modifier_output)
        in Inr \<lparr>input_tokens = input_token_count,
                 output_tokens = output_token_count,
                 input_tokens_per_credit = py_round_2 q_in,
                 output_tokens_per_credit = py_round_2 q_out,
                 base_credit_cost_input = base_in,
                 modified_credit_cost_input = mod_in,
                 base_credit_cost_output = base_out,
                 modified_credit_cost_output = mod_out,
                 total_cost = mod_in + mod_out\<rparr>)))))"

text \<open>
  Prices of the two model tiers: the \<open>gpt-4o-mini\<close> columns (metadata) and the \<open>o1\<close>
  columns (every other text kind).
\<close>

definition mini_tier ::
  "bool \<Rightarrow> TokenCostConfig option \<Rightarrow> rat \<Rightarrow> rat \<Rightarrow> int \<Rightarrow> int \<Rightarrow> error + token_cost" where
  "mini_tier floor1 tokenCostConfig modifier_input modifier_output input_token_count output_token_count =
     (case tokenCostConfig of
        None \<Rightarrow> Inl AttributeError
      | Some t \<Rightarrow>
          credit_arithmetic floor1 (cost_per_credit t) (cost_per_1m_input t) (cost_per_1m_output t)
            modifier_input modifier_output input_token_count output_token_count)"

definition o1_tier ::
  "bool \<Rightarrow> TokenCostConfig option \<Rightarrow> rat \<Rightarrow> rat \<Rightarrow> int \<Rightarrow> int \<Rightarrow> error + token_cost" where
  "o1_tier floor1 tokenCostConfig modifier_input modifier_output input_token_count output_token_count =
     (case tokenCostConfig of
        None \<Rightarrow> Inl AttributeError
      | Some t \<Rightarrow>
          credit_arithmetic floor1 (o1_cost_per_credit t) (o1_cost_per_1m_input t)
            (o1_cost_per_1m_output t)
            modifier_input modifier_output input_token_count output_token_count)"

text \<open>
  The estimators. \<open>input_token_count\<close> is \<open>count_tokens\<close> of the rendered prompt in the
  prediction functions and the argument of that name in the reconciliation functions;
  \<open>output_token_count\<close> is \<open>count_tokens\<close> of the generated text.
\<close>

definition calculate_predicted_meta_cost ::
  "TokenCostConfig option \<Rightarrow> CreditConfig \<Rightarrow> int \<Rightarrow> error + token_cost" where
  "calculate_predicted_meta_cost tcc cc input_token_count =
     mini_tier True tcc (modifier_or_2 cc ''meta_input'') (modifier_or_2 cc ''meta_output'')
       input_token_count 200"

definition calculate_actual_meta_cost ::
  "TokenCostConfig option \<Rightarrow> CreditConfig \<Rightarrow> int \<Rightarrow> int \<Rightarrow> error + token_cost" where
  "calculate_actual_meta_cost tcc cc input_token_count output_token_count =
     mini_tier True tcc (modifier_or_2 cc ''meta_input'') (modifier_or_2 cc ''meta_output'')
       input_token_count output_token_count"

definition calculate_predicted_summaries_cost ::
  "TokenCostConfig option \<Rightarrow> CreditConfig \<Rightarrow> int \<Rightarrow> int \<Rightarrow> error + token_cost" where
  "calculate_predicted_summaries_cost tcc cc input_token_count chapters_count =
     o1_tier False tcc (modifier_or_2 cc ''summary_input'') (modifier_or_2 cc ''summary_output'')
       input_token_count (chapters_count * 50)"

definition calculate_actual_summaries_cost ::
  "TokenCostConfig option \<Rightarrow> CreditConfig \<Rightarrow> int \<Rightarrow> int \<Rightarrow> error + token_cost" where
  "calculate_actual_summaries_cost tcc cc input_token_count output_token_count =
     o1_tier False tcc (modifier_or_2 cc ''summary_input'') (modifier_or_2 cc ''summary_output'')
       input_token_count output_token_count"

definition calculate_predicted_story_arcs_cost ::
  "TokenCostConfig option \<Rightarrow> CreditConfig \<Rightarrow> int \<Rightarrow> error + token_cost" where
  "calculate_predicted_story_arcs_cost tcc cc input_token_count =
     o1_tier True tcc (modifier_or_2 cc ''arcs_input'') (modifier_or_2 cc ''arcs_output'')
       input_token_count 250"

definition calculate_actual_story_arcs_cost ::
  "TokenCostConfig option \<Rightarrow> CreditConfig \<Rightarrow> int \<Rightarrow> int \<Rightarrow> error + token_cost" where
  "calculate_actual_story_arcs_cost tcc cc input_token_count output_token_count =
     o1_tier True tcc (modifier_or_2 cc ''arcs_input'') (modifier_or_2 cc ''arcs_output'')
       input_token_count output_token_count"

definition calculate_predicted_chapter_guide_cost ::
  "TokenCostConfig option \<Rightarrow> CreditConfig \<Rightarrow> int \<Rightarrow> error + token_cost" where
  "calculate_predicted_chapter_guide_cost tcc cc input_token_count =
     o1_tier True tcc (modifier_or_2 cc ''chapter_guide_input'')
       (modifier_or_2 cc ''chapter_guide_output'') input_token_count 250"

definition calculate_actual_chapter_guide_cost ::
  "TokenCostConfig option \<Rightarrow> CreditConfig \<Rightarrow> int \<Rightarrow> int \<Rightarrow> error + token_cost" where
  "calculate_actual_chapter_guide_cost tcc cc input_token_count output_token_count =
     o1_tier True tcc (modifier_or_2 cc ''chapter_guide_input'')
       (modifier_or_2 cc ''chapter_guide_output'') input_token_count output_token_count"

definition calculate_predicted_chapter_cost ::
  "TokenCostConfig option \<Rightarrow> CreditConfig \<Rightarrow> int \<Rightarrow> error + token_cost" where
  "calculate_predicted_chapter_cost tcc cc input_token_count =
     o1_tier False tcc (modifier_or_2 cc ''chapter_input'') (modifier_or_2 cc ''chapter_output'')
       input_token_count 300"

definition calculate_actual_chapter_cost ::
  "TokenCostConfig option \<Rightarrow> CreditConfig \<Rightarrow> int \<Rightarrow> int \<Rightarrow> error + token_cost" where
  "calculate_actual_chapter_cost tcc cc input_token_count output_token_count =
     o1_tier False tcc (modifier_or_2 cc ''chapter_input'') (modifier_or_2 cc ''chapter_output'')
       input_token_count output_token_count"

text \<open>The rows that \<open>app.py\<close> inserts into empty configuration tables at start-up.\<close>

definition default_token_cost_config :: TokenCostConfig where
  "default_token_cost_config =
     \<lparr>cost_per_credit = 999 / 1000000,
      cost_per_1m_input = 15 / 100,
      cost_per_1m_output = 60 / 100,
      o1_cost_per_credit = 999 / 1000000,
      o1_cost_per_1m_input = 15,
      o1_cost_per_1m_output = 60,
      dall_e_price_per_image = 8 / 100\<rparr>"

definition default_credit_config :: CreditConfig where
  "default_credit_config =
     [''image'' \<mapsto> 50, ''meta_input'' \<mapsto> 50, ''meta_output'' \<mapsto> 50,
      ''summary_input'' \<mapsto> 2, ''summary_output'' \<mapsto> 2,
      ''arcs_input'' \<mapsto> 2, ''arcs_output'' \<mapsto> 2,
      ''chapter_guide_input'' \<mapsto> 2, ''chapter_guide_output'' \<mapsto> 2,
      ''chapter_input'' \<mapsto> 2, ''chapter_output'' \<mapsto> 2]"

text \<open>
  \<open>round(input_tokens / input_tokens_per_credit)\<close> read back from a returned dictionary:
  the base input cost before any \<open>max(1, ...)\<close>.
\<close>

definition unfloored_base_input :: "token_cost \<Rightarrow> int" where
  "unfloored_base_input c = py_round (of_int (input_tokens c) / input_tokens_per_credit c)"

text \<open>
  The estimators grouped by what they do with their base costs: the first six wrap them
  in \<open>max(1, ...)\<close> (metadata, story arcs and chapter guide, prediction and
  reconciliation alike); the last four do not (chapter summaries and chapter content).
\<close>

definition floored_estimates ::
  "TokenCostConfig option \<Rightarrow> CreditConfig \<Rightarrow> int \<Rightarrow> int \<Rightarrow> (error + token_cost) list" where
  "floored_estimates tcc cc n m =
     [calculate_predicted_meta_cost tcc cc n, calculate_actual_meta_cost tcc cc n m,
      calculate_predicted_story_arcs_cost tcc cc n, calculate_actual_story_arcs_cost tcc cc n m,
      calculate_predicted_chapter_guide_cost tcc cc n, calculate_actual_chapter_guide_cost tcc cc n m]"

definition unfloored_estimates ::
  "TokenCostConfig option \<Rightarrow> CreditConfig \<Rightarrow> int \<Rightarrow> int \<Rightarrow> int \<Rightarrow> (error + token_cost) list" where
  "unfloored_estimates tcc cc n m k =
     [calculate_predicted_summaries_cost tcc cc n k, calculate_actual_summaries_cost tcc cc n m,
      calculate_predicted_chapter_cost tcc cc n, calculate_actual_chapter_cost tcc cc n m]"



text \<open>The default prices after an administrator has set the \<open>o1\<close> input price to 0.15.\<close>

definition cheap_o1_config :: TokenCostConfig where
  "cheap_o1_config = default_token_cost_config\<lparr>o1_cost_per_1m_input := 15 / 100\<rparr>"

section \<open>Decoded model output\<close>

text \<open>
  What \<open>json.loads\<close> returns, with the accessors that the workers apply to it. A
  dictionary is the list of its items; Python errors are values (\<open>Inl\<close> of the exception's
  name).
\<close>

datatype json =
    JNull
  | JBool bool
  | JNum rat
  | JStr string
  | JList "json list"
  | JDict "(string \<times> json) list"

text \<open>\<open>obj.get(key, default)\<close>: only a dictionary has the method.\<close>

definition py_get :: "json \<Rightarrow> string \<Rightarrow> json \<Rightarrow> string + json" where
  "py_get obj key dflt =
     (case obj of
        JDict items \<Rightarrow> Inr (case map_of items key of Some v \<Rightarrow> v | None \<Rightarrow> dflt)
      | _ \<Rightarrow> Inl ''AttributeError'')"

text \<open>\<open>len(obj)\<close>\<close>

definition py_len :: "json \<Rightarrow> string + nat" where
  "py_len obj =
     (case obj of
        JStr cs \<Rightarrow> Inr (length cs)
      | JList xs \<Rightarrow> Inr (length xs)
      | JDict items \<Rightarrow> Inr (length items)
      | _ \<Rightarrow> Inl ''TypeError'')"

text \<open>The elements that \<open>for x in obj\<close> visits.\<close>

definition py_iter :: "json \<Rightarrow> string + json list" where
  "py_iter obj =
     (case obj of
        JStr cs \<Rightarrow> Inr (map (\<lambda>c. JStr [c]) cs)
      | JList xs \<Rightarrow> Inr xs
      | JDict items \<Rightarrow> Inr (map (\<lambda>(k, v). JStr k) items)
      | _ \<Rightarrow> Inl ''TypeError'')"


definition bind_py :: "string + 'a \<Rightarrow> ('a \<Rightarrow> string + 'b) \<Rightarrow> string + 'b" where
  "bind_py r f = (case r of Inl e \<Rightarrow> Inl e | Inr v \<Rightarrow> f v)"

text \<open>\<open>str(e)\<close> for the two errors of the estimator.\<close>

fun str_error :: "error \<Rightarrow> string" where
  "str_error AttributeError = ''AttributeError''"
| "str_error ZeroDivisionError = ''ZeroDivisionError''"

section \<open>Tables\<close>

text \<open>
  The rows of \<open>models/\<close>, with the columns that the generation pipeline reads or writes. A
  table with an integer primary key that the pipeline never deletes from (\<open>GenerationLog\<close>,
  \<open>Chapter\<close>) is the list of its rows in insertion order, the position being the \<open>id\<close>;
  \<open>User\<close> and \<open>Story\<close> are maps from the \<open>id\<close>. Columns that receive a value of the decoded
  model output hold a \<open>json\<close>.
\<close>

record User =
  text_credits :: rat
  image_credits :: rat
  audio_credits :: rat

record Story =
  chapters_count :: int
  cover_image_prompt :: "string option"
  cover_image_key :: "string option"

record Character =
  character_story_id :: nat
  character_name :: json
  character_description :: json
  character_example_dialogue :: json

record Location =
  location_story_id :: nat
  location_name :: json
  location_description :: json

record StoryArc =
  arc_story_id :: nat
  arc_text :: json
  arc_order :: nat

record Chapter =
  chapter_story_id :: nat
  chapter_number :: int
  chapter_title :: json
  chapter_summary :: json
  chapter_content :: "string option"
  chapter_image_prompt :: "string option"
  chapter_image_key :: "string option"

record ChapterGuide =
  guide_story_id :: nat
  guide_chapter_title :: string
  guide_part_index :: json
  guide_part_text :: json
  guide_characters :: json
  guide_locations :: json

text \<open>
  \<open>models/GenerationLog.py\<close>. \<open>generation_type\<close> and \<open>status\<close> are the strings that the
  code stores; the cost columns hold the number that the estimator returned.
\<close>

record GenerationLog =
  log_user_id :: nat
  log_task_id :: string
  generation_type :: string
  predicted_cost :: "rat option"
  real_cost :: "rat option"
  status :: string
  error_message :: "string option"
  model :: "string option"
  log_input_tokens :: int
  log_output_tokens :: int

record database =
  users :: "nat \<rightharpoonup> User"
  stories :: "nat \<rightharpoonup> Story"
  characters :: "Character list"
  locations :: "Location list"
  story_arcs :: "StoryArc list"
  chapters :: "Chapter list"
  chapter_guides :: "ChapterGuide list"
  generation_logs :: "GenerationLog list"
  token_cost_config :: "TokenCostConfig option"
  credit_config :: CreditConfig

section \<open>The world of one request or task\<close>

text \<open>
  \<open>committed\<close> is the database as other sessions see it; \<open>session\<close> is the SQLAlchemy
  session of the running function: queries read it, attribute writes, \<open>add\<close> and \<open>delete\<close>
  change it, \<open>db.session.commit()\<close> copies it into \<open>committed\<close> and \<open>db.session.remove()\<close> or
  \<open>rollback()\<close> throws its changes away. \<open>locking_queue\<close> is the Redis key space of
  \<open>api/generation.py\<close>: the users whose key \<open>generation_lock:{user_id}\<close> exists (the expiry
  of a key is not modelled). \<open>emitted\<close> are the Socket.IO events sent so far, with their
  room; \<open>enqueued\<close> are the Celery tasks sent to the broker; \<open>bucket\<close> is the image store.
\<close>

datatype event =
    Notification string
  | GenerationError string
  | Generated string

text \<open>
  A task sent to the broker: the identifier that Celery gave it, then the arguments of
  \<open>delay\<close> in their order.
\<close>

datatype task =
    GenerateImageTask string nat string string nat rat "nat option"
  | GenerateMetaTask string nat string nat int
  | GenerateStoryArcsTask string nat string nat int
  | GenerateSummariesTask string nat string nat int
  | GenerateChapterGuideTask string nat string nat int
  | GenerateChapterTask string nat string int nat int

record world =
  committed :: database
  session :: database
  locking_queue :: "nat set"
  emitted :: "(nat \<times> event) list"
  enqueued :: "task list"
  bucket :: "string set"

text \<open>
  What the collaborators do during one run. \<open>faults line k\<close> is the message of the exception
  that the call on source line \<open>line\<close> raises when it runs for the \<open>k\<close>-th time (\<open>k = 0\<close> outside
  loops), \<open>None\<close> when the call succeeds. The calls that can fail this way are the model
  provider, the broker, Socket.IO, the image store, \<open>requests.get\<close> and
  \<open>db.session.commit()\<close>; queries, attribute writes and the Redis commands do not raise.
  \<open>completion\<close> is the model provider's answer to a prompt, \<open>json_loads\<close> and \<open>count_tokens\<close>
  are the functions of those names. \<open>render_prompt kind d story_id i\<close> is the prompt that
  \<open>prompt_templates.py\<close> renders for a generation kind from the rows of story \<open>story_id\<close>
  (and of its chapter at index \<open>i\<close>), or the exception raised while collecting them.
  \<open>new_task_id k\<close> is the identifier that Celery gives to the \<open>k\<close>-th task sent.
\<close>

record env =
  faults :: "nat \<Rightarrow> nat \<Rightarrow> string option"
  completion :: "string \<Rightarrow> string"
  json_loads :: "string \<Rightarrow> json option"
  count_tokens :: "string \<Rightarrow> int"
  render_prompt :: "string \<Rightarrow> database \<Rightarrow> nat \<Rightarrow> int \<Rightarrow> string + string"
  new_task_id :: "nat \<Rightarrow> string"

section \<open>Statements\<close>

text \<open>
  A statement runs on a world and ends in one of three ways: it falls through with a value,
  it executes \<open>return\<close>, or it raises.
\<close>

datatype ('a, 'r) res = Val 'a | Ret 'r | Exc string

type_synonym ('a, 'r) prog = "world \<Rightarrow> ('a, 'r) res \<times> world"

definition pure_prog :: "'a \<Rightarrow> ('a, 'r) prog" where
  "pure_prog x s = (Val x, s)"

definition return_prog :: "'r \<Rightarrow> ('a, 'r) prog" where
  "return_prog r s = (Ret r, s)"

definition raise_prog :: "string \<Rightarrow> ('a, 'r) prog" where
  "raise_prog e s = (Exc e, s)"

definition bind_prog :: "('a, 'r) prog \<Rightarrow> ('a \<Rightarrow> ('b, 'r) prog) \<Rightarrow> ('b, 'r) prog" where
  "bind_prog m f s =
     (case m s of
        (Val x, s') \<Rightarrow> f x s'
      | (Ret r, s') \<Rightarrow> (Ret r, s')
      | (Exc e, s') \<Rightarrow> (Exc e, s'))"

text \<open>A sequence of statements.\<close>

fun block :: "(unit, 'r) prog list \<Rightarrow> (unit, 'r) prog" where
  "block [] = pure_prog ()"
| "block (c # cs) = bind_prog c (\<lambda>_. block cs)"

text \<open>\<open>if cond: body\<close>\<close>

definition when_prog :: "bool \<Rightarrow> (unit, 'r) prog \<Rightarrow> (unit, 'r) prog" where
  "when_prog cond body = (if cond then body else pure_prog ())"

text \<open>\<open>for i, x in enumerate(xs): body\<close>, counting from \<open>i\<close>.\<close>

fun for_each :: "nat \<Rightarrow> 'a list \<Rightarrow> (nat \<Rightarrow> 'a \<Rightarrow> (unit, 'r) prog) \<Rightarrow> (unit, 'r) prog" where
  "for_each i [] body = pure_prog ()"
| "for_each i (x # xs) body = bind_prog (body i x) (\<lambda>_. for_each (Suc i) xs body)"

text \<open>Reading the world, changing the session, a pure Python expression that may raise.\<close>

definition read :: "(world \<Rightarrow> 'a) \<Rightarrow> ('a, 'r) prog" where
  "read f s = (Val (f s), s)"

definition modify :: "(world \<Rightarrow> world) \<Rightarrow> (unit, 'r) prog" where
  "modify f s = (Val (), f s)"

definition in_session :: "(database \<Rightarrow> database) \<Rightarrow> (unit, 'r) prog" where
  "in_session f = modify (\<lambda>s. s\<lparr>session := f (session s)\<rparr>)"

definition py_value :: "string + 'a \<Rightarrow> ('a, 'r) prog" where
  "py_value r = (case r of Inl e \<Rightarrow> raise_prog e | Inr v \<Rightarrow> pure_prog v)"

text \<open>A call to a collaborator on line \<open>line\<close>: it raises, or has its effect.\<close>

definition call :: "env \<Rightarrow> nat \<Rightarrow> nat \<Rightarrow> (world \<Rightarrow> world) \<Rightarrow> (unit, 'r) prog" where
  "call e line k f s =
     (case faults e line k of
        Some msg \<Rightarrow> (Exc msg, s)
      | None \<Rightarrow> (Val (), f s))"

text \<open>
  \<open>try: body except Exception as e: handler(e) finally: final\<close>. The handler runs when the
  body raises; \<open>final\<close> runs in every case, after which the pending \<open>return\<close> or exception
  of the body or of the handler goes on, unless \<open>final\<close> itself returns or raises.
\<close>

definition try_except_finally ::
  "(unit, 'r) prog \<Rightarrow> (string \<Rightarrow> (unit, 'r) prog) \<Rightarrow> (unit, 'r) prog \<Rightarrow> (unit, 'r) prog" where
  "try_except_finally body handler final s =
     (let (r1, s1) = body s;
          (r2, s2) = (case r1 of Exc e \<Rightarrow> handler e s1 | _ \<Rightarrow> (r1, s1));
          (r3, s3) = final s2
      in (case r3 of Val _ \<Rightarrow> (r2, s3) | _ \<Rightarrow> (r3, s3)))"

text \<open>\<open>try: body except Exception as e: handler(e)\<close>\<close>

definition try_except ::
  "(unit, 'r) prog \<Rightarrow> (string \<Rightarrow> (unit, 'r) prog) \<Rightarrow> (unit, 'r) prog" where
  "try_except body handler s =
     (case body s of
        (Exc e, s1) \<Rightarrow> handler e s1
      | (r1, s1) \<Rightarrow> (r1, s1))"

section \<open>Session, lock, notifier and ledger primitives\<close>

text \<open>\<open>db.session.commit()\<close> on line \<open>line\<close>, \<open>db.session.rollback()\<close>, \<open>db.session.remove()\<close>.\<close>

definition db_session_commit :: "env \<Rightarrow> nat \<Rightarrow> nat \<Rightarrow> (unit, 'r) prog" where
  "db_session_commit e line k = call e line k (\<lambda>s. s\<lparr>committed := session s\<rparr>)"

definition db_session_rollback :: "(unit, 'r) prog" where
  "db_session_rollback = modify (\<lambda>s. s\<lparr>session := committed s\<rparr>)"

definition db_session_remove :: "(unit, 'r) prog" where
  "db_session_remove = modify (\<lambda>s. s\<lparr>session := committed s\<rparr>)"

text \<open>
  \<open>set_user_generation_lock\<close>: \<open>SET key 1 EX 2000 NX\<close>, true when the key was absent.
  \<open>clear_user_generation_lock\<close>: \<open>DEL key\<close>.
\<close>

definition set_user_generation_lock :: "nat \<Rightarrow> (bool, 'r) prog" where
  "set_user_generation_lock user_id s =
     (if user_id \<in> locking_queue s then (Val False, s)
      else (Val True, s\<lparr>locking_queue := insert user_id (locking_queue s)\<rparr>))"

definition clear_user_generation_lock :: "nat \<Rightarrow> (unit, 'r) prog" where
  "clear_user_generation_lock user_id =
     modify (\<lambda>s. s\<lparr>locking_queue := locking_queue s - {user_id}\<rparr>)"

text \<open>\<open>helpers.notify\<close> and \<open>socketio.emit(..., room=user_id)\<close>, called on line \<open>line\<close>.\<close>

definition emit :: "env \<Rightarrow> nat \<Rightarrow> event \<Rightarrow> nat \<Rightarrow> (unit, 'r) prog" where
  "emit e line ev user_id = call e line 0 (\<lambda>s. s\<lparr>emitted := emitted s @ [(user_id, ev)]\<rparr>)"

definition notify :: "env \<Rightarrow> nat \<Rightarrow> string \<Rightarrow> nat \<Rightarrow> (unit, 'r) prog" where
  "notify e line message user_id = emit e line (Notification message) user_id"

text \<open>\<open>helpers.can_spend_credits\<close>\<close>

definition can_spend_credits :: "User \<Rightarrow> string \<Rightarrow> rat \<Rightarrow> bool" where
  "can_spend_credits user credit_type cost =
     (if credit_type = ''text'' then text_credits user \<ge> cost
      else if credit_type = ''image'' then image_credits user \<ge> cost
      else if credit_type = ''audio'' then audio_credits user \<ge> cost
      else False)"

text \<open>
  \<open>helpers.spend_credits\<close>, called on line \<open>line\<close>: the user row is read, the counter of the
  credit type is lowered, and the session is committed. A missing user makes the attribute
  write raise.
\<close>

definition spend_credits :: "env \<Rightarrow> nat \<Rightarrow> nat \<Rightarrow> string \<Rightarrow> rat \<Rightarrow> (unit, 'r) prog" where
  "spend_credits e line user_id credit_type cost =
     bind_prog (read (\<lambda>s. users (session s) user_id)) (\<lambda>user.
       case user of
         None \<Rightarrow>
           (if credit_type = ''text'' \<or> credit_type = ''image'' \<or> credit_type = ''audio''
            then raise_prog ''AttributeError''
            else db_session_commit e line 0)
       | Some u \<Rightarrow>
           block [
             in_session (\<lambda>d. d\<lparr>users := (users d)(user_id \<mapsto>
               (if credit_type = ''text'' then u\<lparr>text_credits := text_credits u - cost\<rparr>
                else if credit_type = ''image'' then u\<lparr>image_credits := image_credits u - cost\<rparr>
                else if credit_type = ''audio'' then u\<lparr>audio_credits := audio_credits u - cost\<rparr>
                else u))\<rparr>),
             db_session_commit e line 0])"

text \<open>
  \<open>GenerationLog.query.filter_by(task_id=..., user_id=..., generation_type=...).first()\<close>:
  the \<open>id\<close> of the first matching row.
\<close>

definition find_log :: "database \<Rightarrow> string \<Rightarrow> nat \<Rightarrow> string \<Rightarrow> nat option" where
  "find_log d tid user_id gtype =
     (case filter (\<lambda>i. log_task_id (generation_logs d ! i) = tid \<and>
                        log_user_id (generation_logs d ! i) = user_id \<and>
                        generation_type (generation_logs d ! i) = gtype)
             [0 ..< length (generation_logs d)] of
        [] \<Rightarrow> None
      | i # _ \<Rightarrow> Some i)"

text \<open>Attribute writes on the row \<open>log_entry\<close>, when there is one (\<open>if log_entry:\<close>).\<close>

definition update_log :: "nat option \<Rightarrow> (GenerationLog \<Rightarrow> GenerationLog) \<Rightarrow> (unit, 'r) prog" where
  "update_log log_entry f =
     (case log_entry of
        None \<Rightarrow> pure_prog ()
      | Some i \<Rightarrow>
          in_session (\<lambda>d. d\<lparr>generation_logs := (generation_logs d)[i := f (generation_logs d ! i)]\<rparr>))"

section \<open>Workers (\<open>tasks.py\<close>)\<close>

text \<open>What a task returns: \<open>None\<close>, a success dictionary, or an error dictionary.\<close>

datatype task_result = ReturnedNone | ReturnedSuccess | ReturnedError string

text \<open>The decimal digits of a number (\<open>f"Chapter {index}"\<close>).\<close>

function str_nat :: "nat \<Rightarrow> string" where
  "str_nat n =
     (if n < 10 then [char_of (48 + n)]
      else str_nat (n div 10) @ [char_of (48 + n mod 10)])"
  by pat_completeness auto
termination
  by (relation "measure id") auto


text \<open>
  The block \<open>if log_entry: ...; db.session.commit()\<close> that ends the success path of the five
  text tasks, its commit on line \<open>line\<close>.
\<close>

definition log_succeeded ::
  "env \<Rightarrow> nat \<Rightarrow> nat option \<Rightarrow> token_cost \<Rightarrow> string \<Rightarrow> (unit, 'r) prog" where
  "log_succeeded e line log_entry actual_cost model_name =
     when_prog (log_entry \<noteq> None) (block [
       update_log log_entry (\<lambda>l. l\<lparr>real_cost := Some (of_int (total_cost actual_cost))\<rparr>),
       update_log log_entry (\<lambda>l. l\<lparr>status := ''succeeded''\<rparr>),
       update_log log_entry (\<lambda>l. l\<lparr>log_input_tokens := input_tokens actual_cost\<rparr>),
       update_log log_entry (\<lambda>l. l\<lparr>log_output_tokens := output_tokens actual_cost\<rparr>),
       update_log log_entry (\<lambda>l. l\<lparr>model := Some model_name\<rparr>),
       db_session_commit e line 0])"

text \<open>
  The \<open>except Exception as e\<close> block of the five text tasks: the commit on \<open>line\<close>, the
  notification on \<open>line + 1\<close> and the error event on \<open>line + 2\<close>.
\<close>

definition log_failed :: "env \<Rightarrow> nat \<Rightarrow> nat option \<Rightarrow> string \<Rightarrow> (unit, 'r) prog" where
  "log_failed e line log_entry msg =
     when_prog (log_entry \<noteq> None) (block [
       update_log log_entry (\<lambda>l. l\<lparr>status := ''failed''\<rparr>),
       update_log log_entry (\<lambda>l. l\<lparr>error_message := Some msg\<rparr>),
       db_session_commit e line 0])"

definition text_task_handler ::
  "env \<Rightarrow> nat \<Rightarrow> nat option \<Rightarrow> string \<Rightarrow> nat \<Rightarrow> string \<Rightarrow> (unit, task_result) prog" where
  "text_task_handler e line log_entry message user_id msg =
     block [
       log_failed e line log_entry msg,
       notify e (line + 1) message user_id,
       emit e (line + 2) (GenerationError msg) user_id,
       return_prog (ReturnedError msg)]"

text \<open>The \<open>finally\<close> block of every task.\<close>

definition task_finally :: "nat \<Rightarrow> (unit, 'r) prog" where
  "task_finally user_id = block [clear_user_generation_lock user_id, db_session_remove]"

text \<open>
  A task starts on a session of its own, which holds what is committed. \<open>tid\<close> is
  \<open>task.request.id\<close>.
\<close>

definition new_session :: "world \<Rightarrow> world" where
  "new_session s = s\<lparr>session := committed s\<rparr>"

text \<open>The reconciliation functions of \<open>predictions.py\<close> on the session's price tables.\<close>

definition actual_cost_of ::
  "(TokenCostConfig option \<Rightarrow> CreditConfig \<Rightarrow> int \<Rightarrow> int \<Rightarrow> error + token_cost) \<Rightarrow>
   env \<Rightarrow> int \<Rightarrow> string \<Rightarrow> (token_cost, 'r) prog" where
  "actual_cost_of calculate e input_token_count text =
     bind_prog (read session) (\<lambda>d.
       py_value (map_sum str_error id
         (calculate (token_cost_config d) (credit_config d) input_token_count
            (count_tokens e text))))"

definition generate_image_task ::
  "env \<Rightarrow> string \<Rightarrow> nat \<Rightarrow> string \<Rightarrow> string \<Rightarrow> nat \<Rightarrow> rat \<Rightarrow> nat option \<Rightarrow>
   (unit, task_result) prog" where
  "generate_image_task e tid story_id image_key prompt user_id credit_cost chapter_id s0 =
     (let s = new_session s0;
          log_entry = find_log (session s) tid user_id ''image''
      in try_except_finally
        (block [
           call e 64 0 id,
           call e 65 0 id,
           (case chapter_id of
              None \<Rightarrow>
                bind_prog (read (\<lambda>s. stories (session s) story_id)) (\<lambda>story.
                  case story of
                    None \<Rightarrow>
                      block [notify e 70 ''Story not found'' user_id,
                             return_prog (ReturnedError ''Story not found.'')]
                  | Some st \<Rightarrow>
                      block [
                        call e 72 0 (\<lambda>s. s\<lparr>bucket := insert image_key (bucket s)\<rparr>),
                        in_session (\<lambda>d. d\<lparr>stories := (stories d)(story_id \<mapsto>
                          st\<lparr>cover_image_key := Some image_key\<rparr>)\<rparr>)])
            | Some cid \<Rightarrow>
                bind_prog (read (\<lambda>s. chapters (session s))) (\<lambda>chs.
                  if cid < length chs \<and> chapter_story_id (chs ! cid) = story_id
                  then block [
                         call e 79 0 (\<lambda>s. s\<lparr>bucket := insert image_key (bucket s)\<rparr>),
                         in_session (\<lambda>d. d\<lparr>chapters := (chapters d)[cid :=
                           (chapters d ! cid)\<lparr>chapter_image_key := Some image_key\<rparr>]\<rparr>)]
                  else block [notify e 77 ''Chapter not found'' user_id,
                              return_prog (ReturnedError ''Chapter not found.'')])),
           db_session_commit e 82 0,
           spend_credits e 83 user_id ''image'' credit_cost,
           when_prog (log_entry \<noteq> None) (block [
             update_log log_entry (\<lambda>l. l\<lparr>status := ''succeeded''\<rparr>),
             update_log log_entry (\<lambda>l. l\<lparr>model := Some ''dall-e-3''\<rparr>),
             db_session_commit e 87 0]),
           notify e 88 ''Image Generation Complete'' user_id,
           emit e 90 (Generated ''image_generated'') user_id,
           return_prog ReturnedSuccess])
        (\<lambda>msg. block [
           db_session_rollback,
           log_failed e 106 log_entry msg,
           notify e 107 ''Image Generation Failed'' user_id,
           emit e 108 (GenerationError msg) user_id,
           return_prog (ReturnedError msg)])
        (task_finally user_id) s)"

text \<open>
  The rows that the metadata task builds from one element of \<open>characters\<close> or
  \<open>locations\<close>.
\<close>

definition new_character :: "nat \<Rightarrow> json \<Rightarrow> string + Character" where
  "new_character story_id char_data =
     bind_py (py_get char_data ''name'' JNull) (\<lambda>n.
     bind_py (py_get char_data ''description'' JNull) (\<lambda>d.
     bind_py (py_get char_data ''example_dialogue'' JNull) (\<lambda>x.
       Inr \<lparr>character_story_id = story_id, character_name = n,
            character_description = d, character_example_dialogue = x\<rparr>)))"

definition new_location :: "nat \<Rightarrow> json \<Rightarrow> string + Location" where
  "new_location story_id loc_data =
     bind_py (py_get loc_data ''name'' JNull) (\<lambda>n.
     bind_py (py_get loc_data ''description'' JNull) (\<lambda>d.
       Inr \<lparr>location_story_id = story_id, location_name = n, location_description = d\<rparr>))"

definition generate_meta_task ::
  "env \<Rightarrow> string \<Rightarrow> nat \<Rightarrow> string \<Rightarrow> nat \<Rightarrow> int \<Rightarrow> (unit, task_result) prog" where
  "generate_meta_task e tid story_id prompt user_id predicted_input_tokens s0 =
     (let s = new_session s0;
          log_entry = find_log (session s) tid user_id ''meta'';
          result_text = completion e prompt;
          result = (case json_loads e result_text of
                      Some j \<Rightarrow> j
                    | None \<Rightarrow> JDict [(''locations'', JList []), (''characters'', JList [])])
      in try_except_finally
        (block [
           call e 138 0 id,
           bind_prog (py_value (bind_py (py_get result ''locations'' JNull) py_len)) (\<lambda>n_loc.
           bind_prog (if n_loc = 0
                      then py_value (map_sum id (\<lambda>n_char. n_char = 0)
                             (bind_py (py_get result ''characters'' JNull) py_len))
                      else pure_prog False) (\<lambda>is_empty.
             when_prog is_empty (block [
               notify e 144 ''Metadata Generation Failed'' user_id,
               clear_user_generation_lock user_id,
               return_prog ReturnedNone]))),
           bind_prog (read (\<lambda>s. stories (session s) story_id)) (\<lambda>story. block [
             when_prog (story \<noteq> None) (block [
               in_session (\<lambda>d. d\<lparr>characters :=
                 filter (\<lambda>c. character_story_id c \<noteq> story_id) (characters d)\<rparr>),
               in_session (\<lambda>d. d\<lparr>locations :=
                 filter (\<lambda>l. location_story_id l \<noteq> story_id) (locations d)\<rparr>),
               bind_prog (py_value (bind_py (py_get result ''characters'' (JList [])) py_iter))
                 (\<lambda>cs. for_each 0 cs (\<lambda>_ char_data.
                    bind_prog (py_value (new_character story_id char_data)) (\<lambda>new_char.
                      in_session (\<lambda>d. d\<lparr>characters := characters d @ [new_char]\<rparr>)))),
               bind_prog (py_value (bind_py (py_get result ''locations'' (JList [])) py_iter))
                 (\<lambda>ls. for_each 0 ls (\<lambda>_ loc_data.
                    bind_prog (py_value (new_location story_id loc_data)) (\<lambda>new_loc.
                      in_session (\<lambda>d. d\<lparr>locations := locations d @ [new_loc]\<rparr>)))),
               db_session_commit e 167 0]),
             bind_prog (actual_cost_of calculate_actual_meta_cost e predicted_input_tokens result_text)
               (\<lambda>actual_cost. block [
                  spend_credits e 171 user_id ''text'' (of_int (total_cost actual_cost)),
                  log_succeeded e 178 log_entry actual_cost ''gpt-4o-mini'',
                  notify e 180 ''Metadata Generation Successful'' user_id,
                  when_prog (story = None) (raise_prog ''AttributeError''),
                  emit e 187 (Generated ''meta_generated'') user_id,
                  return_prog ReturnedSuccess])])])
        (text_task_handler e 193 log_entry ''Metadata Generation Failed'' user_id)
        (task_finally user_id) s)"








section \<open>Dispatcher (\<open>api/generation.py\<close>, \<open>helpers.py\<close>)\<close>

text \<open>
  \<open>helpers.is_last_generation_and_negative_creds\<close>: the newest log row of the user, by
  \<open>id\<close>, has the given type and the credit counter of that type is not positive.
\<close>

definition is_last_generation_and_negative_creds ::
  "database \<Rightarrow> nat \<Rightarrow> User \<Rightarrow> string \<Rightarrow> bool" where
  "is_last_generation_and_negative_creds d user_id user type =
     (case filter (\<lambda>l. log_user_id l = user_id) (rev (generation_logs d)) of
        [] \<Rightarrow> False
      | log_entry # _ \<Rightarrow>
          if generation_type log_entry \<noteq> type then False
          else if generation_type log_entry = ''meta'' then text_credits user \<le> 0
          else if generation_type log_entry = ''story_arcs'' then text_credits user \<le> 0
          else if generation_type log_entry = ''summaries'' then text_credits user \<le> 0
          else if generation_type log_entry = ''chapter_guide'' then text_credits user \<le> 0
          else if generation_type log_entry = ''chapter'' then text_credits user \<le> 0
          else if generation_type log_entry = ''chapter'' then text_credits user \<le> 0
          else if generation_type log_entry = ''image'' then image_credits user \<le> 0
          else False)"

text \<open>
  The responses of the generation endpoints: \<open>{"error": True}\<close>, the 404 of a missing
  story or chapter, the two 400 messages, the insufficient-credits error with \<open>required\<close> and,
  where the endpoint sends it, \<open>available\<close>, the \<open>queued\<close> answer with the task identifier
  (where the endpoint sends it) and the predicted total, and the 500 of the \<open>except\<close> block.
\<close>

datatype response =
    ErrorTrue
  | NotFound
  | AlreadyInProgress
  | ChapterDataNotFound
  | NotEnoughCredits rat "rat option"
  | Queued "string option" rat
  | ServerError string

text \<open>
  A view runs on a session of its own, which the application removes when the request
  ends. The decorator \<open>is_story_author_or_admin\<close> has let the request through, so
  \<open>get_current_user()\<close> finds the row of \<open>user_id\<close>; without it the first attribute
  read raises.
\<close>

definition flask_view :: "(unit, response) prog \<Rightarrow> (unit, response) prog" where
  "flask_view body s0 =
     (let (r, s1) = body (new_session s0) in (r, s1\<lparr>session := committed s1\<rparr>))"

definition get_current_user :: "nat \<Rightarrow> (User, 'r) prog" where
  "get_current_user user_id =
     bind_prog (read (\<lambda>s. users (session s) user_id)) (\<lambda>u.
       case u of None \<Rightarrow> raise_prog ''AttributeError'' | Some user \<Rightarrow> pure_prog user)"

text \<open>The first lines of every view: the overdraft guard, its notification on \<open>line\<close>.\<close>

definition overdraft_guard :: "env \<Rightarrow> nat \<Rightarrow> nat \<Rightarrow> User \<Rightarrow> string \<Rightarrow> (unit, response) prog" where
  "overdraft_guard e line user_id user type =
     bind_prog (read session) (\<lambda>d.
       when_prog (is_last_generation_and_negative_creds d user_id user type) (block [
         notify e line ''Top up your credits to see generation'' user_id,
         return_prog ErrorTrue]))"

text \<open>The row that a view adds for the task it has sent.\<close>

definition pending_log ::
  "nat \<Rightarrow> string \<Rightarrow> string \<Rightarrow> rat \<Rightarrow> rat option \<Rightarrow> GenerationLog" where
  "pending_log user_id tid gtype predicted actual =
     \<lparr>log_user_id = user_id, log_task_id = tid, generation_type = gtype,
      predicted_cost = Some predicted, real_cost = actual, status = ''pending'',
      error_message = None, model = None, log_input_tokens = 0, log_output_tokens = 0\<rparr>"

text \<open>
  The \<open>try\<close> block that ends every single-task view: \<open>delay\<close> on \<open>l_delay\<close>, the new log
  row and its commit on \<open>l_commit\<close>, the notification on \<open>l_notify\<close> and the \<open>queued\<close>
  response; in the \<open>except\<close> block the notification on \<open>l_except\<close>, the release of the
  user's lock and the 500 response.
\<close>

definition send_task ::
  "env \<Rightarrow> nat \<Rightarrow> nat \<Rightarrow> nat \<Rightarrow> nat \<Rightarrow> (string \<Rightarrow> task) \<Rightarrow> (string \<Rightarrow> GenerationLog) \<Rightarrow>
   string \<Rightarrow> string \<Rightarrow> nat \<Rightarrow> (string \<Rightarrow> response) \<Rightarrow> (unit, response) prog" where
  "send_task e l_delay l_commit l_notify l_except mk_task mk_log started failed user_id mk_response =
     try_except
       (block [
          call e l_delay 0 (\<lambda>s. s\<lparr>enqueued := enqueued s @ [mk_task (new_task_id e 0)]\<rparr>),
          in_session (\<lambda>d. d\<lparr>generation_logs := generation_logs d @ [mk_log (new_task_id e 0)]\<rparr>),
          db_session_commit e l_commit 0,
          notify e l_notify started user_id,
          return_prog (mk_response (new_task_id e 0))])
       (\<lambda>msg. block [
          notify e l_except failed user_id,
          clear_user_generation_lock user_id,
          return_prog (ServerError msg)])"

text \<open>
  A prediction function of \<open>predictions.py\<close> on the session's rows: it renders the prompt,
  counts its tokens and computes the cost. The view renders the same prompt for the task.
\<close>

definition predict ::
  "(TokenCostConfig option \<Rightarrow> CreditConfig \<Rightarrow> int \<Rightarrow> error + token_cost) \<Rightarrow>
   env \<Rightarrow> string \<Rightarrow> database \<Rightarrow> nat \<Rightarrow> int \<Rightarrow> string + (string \<times> token_cost)" where
  "predict calculate e kind d story_id i =
     bind_py (render_prompt e kind d story_id i) (\<lambda>full_prompt.
       map_sum str_error (\<lambda>c. (full_prompt, c))
         (calculate (token_cost_config d) (credit_config d) (count_tokens e full_prompt)))"

definition image_prediction :: "database \<Rightarrow> string + rat" where
  "image_prediction d =
     map_sum str_error total_credit_cost
       (calculate_image_cost (token_cost_config d) (credit_config d))"

definition api_generate_cover_image ::
  "env \<Rightarrow> nat \<Rightarrow> nat \<Rightarrow> string \<Rightarrow> (unit, response) prog" where
  "api_generate_cover_image e user_id story_id cover_prompt =
     flask_view (
       bind_prog (get_current_user user_id) (\<lambda>user. block [
         overdraft_guard e 253 user_id user ''image'',
         bind_prog (read (\<lambda>s. stories (session s) story_id)) (\<lambda>story.
           case story of
             None \<Rightarrow> return_prog NotFound
           | Some st \<Rightarrow> block [
               in_session (\<lambda>d. d\<lparr>stories := (stories d)(story_id \<mapsto>
                 st\<lparr>cover_image_prompt := Some cover_prompt\<rparr>)\<rparr>),
               db_session_commit e 262 0,
               bind_prog (bind_prog (read session) (\<lambda>d. py_value (image_prediction d)))
                 (\<lambda>prediction. block [
                    when_prog (\<not> can_spend_credits user ''image'' prediction) (block [
                      notify e 266 ''You don't have enough credits!'' user_id,
                      return_prog (NotEnoughCredits prediction None)]),
                    send_task e 273 284 285 291
                      (\<lambda>tid. GenerateImageTask tid story_id
                         (''stories/'' @ str_nat story_id @ ''/cover.jpg'')
                         cover_prompt user_id prediction None)
                      (\<lambda>tid. pending_log user_id tid ''image'' prediction (Some prediction))
                      ''Generating Cover Image...'' ''Cover Image Generation Failed'' user_id
                      (\<lambda>tid. Queued None prediction)])])]))"

definition api_generate_chapter_image ::
  "env \<Rightarrow> nat \<Rightarrow> nat \<Rightarrow> nat \<Rightarrow> string \<Rightarrow> (unit, response) prog" where
  "api_generate_chapter_image e user_id story_id chapter_id chapter_prompt =
     flask_view (
       bind_prog (get_current_user user_id) (\<lambda>user. block [
         overdraft_guard e 315 user_id user ''image'',
         bind_prog (read (\<lambda>s. chapters (session s))) (\<lambda>chs.
           if \<not> (chapter_id < length chs \<and> chapter_story_id (chs ! chapter_id) = story_id)
           then return_prog NotFound
           else block [
             in_session (\<lambda>d. d\<lparr>chapters := (chapters d)[chapter_id :=
               (chapters d ! chapter_id)\<lparr>chapter_image_prompt := Some chapter_prompt\<rparr>]\<rparr>),
             db_session_commit e 326 0,
             bind_prog (bind_prog (read session) (\<lambda>d. py_value (image_prediction d)))
               (\<lambda>prediction. block [
                  when_prog (\<not> can_spend_credits user ''image'' prediction) (block [
                    notify e 330 ''You don't have enough credits!'' user_id,
                    return_prog (NotEnoughCredits prediction None)]),
                  send_task e 337 347 348 354
                    (\<lambda>tid. GenerateImageTask tid story_id
                       (''stories/'' @ str_nat story_id @ ''/chapters/'' @ str_nat chapter_id
                          @ ''.jpg'')
                       chapter_prompt user_id prediction (Some chapter_id))
                    (\<lambda>tid. pending_log user_id tid ''image'' prediction None)
                    ''Generating Chapter Image...'' ''Chapter Image Generation Failed'' user_id
                    (\<lambda>tid. Queued None prediction)])])]))"



definition api_generate_summaries :: "env \<Rightarrow> nat \<Rightarrow> nat \<Rightarrow> (unit, response) prog" where
  "api_generate_summaries e user_id story_id =
     flask_view (
       bind_prog (get_current_user user_id) (\<lambda>user. block [
         overdraft_guard e 505 user_id user ''summaries'',
         bind_prog (read (\<lambda>s. stories (session s) story_id)) (\<lambda>story.
           case story of
             None \<Rightarrow> return_prog NotFound
           | Some st \<Rightarrow> block [
               bind_prog (set_user_generation_lock user_id) (\<lambda>was_set.
                 when_prog (\<not> was_set) (block [
                   notify e 514 ''A generation task is already in progress'' user_id,
                   return_prog AlreadyInProgress])),
               bind_prog (bind_prog (read session) (\<lambda>d. py_value
                   (predict (\<lambda>tcc cc n. calculate_predicted_summaries_cost tcc cc n
                               (chapters_count st))
                      e ''summaries'' d story_id 0)))
                 (\<lambda>(full_prompt, prediction). block [
                    when_prog (\<not> can_spend_credits user ''text'' (of_int (total_cost prediction)))
                      (block [
                        notify e 526 ''You Don't Have Enough Credits!'' user_id,
                        return_prog (NotEnoughCredits (of_int (total_cost prediction))
                                       (Some (text_credits user)))]),
                    send_task e 533 542 543 550
                      (\<lambda>tid. GenerateSummariesTask tid story_id full_prompt user_id
                         (input_tokens prediction))
                      (\<lambda>tid. pending_log user_id tid ''summaries''
                         (of_int (total_cost prediction)) None)
                      ''Generating Summaries...'' ''Summaries Generation Failed'' user_id
                      (\<lambda>tid. Queued (Some tid) (of_int (total_cost prediction)))])])]))"


text \<open>\<open>Chapter.query.filter_by(story_id=story.id)\<close>: the chapters of a story.\<close>

definition story_chapters :: "database \<Rightarrow> nat \<Rightarrow> Chapter list" where
  "story_chapters d story_id = filter (\<lambda>c. chapter_story_id c = story_id) (chapters d)"

definition api_generate_chapter :: "env \<Rightarrow> nat \<Rightarrow> nat \<Rightarrow> int \<Rightarrow> (unit, response) prog" where
  "api_generate_chapter e user_id story_id number =
     flask_view (
       bind_prog (get_current_user user_id) (\<lambda>user. block [
         overdraft_guard e 652 user_id user ''chapter'',
         bind_prog (read (\<lambda>s. stories (session s) story_id)) (\<lambda>story.
           case story of
             None \<Rightarrow> return_prog NotFound
           | Some st \<Rightarrow> block [
               bind_prog (set_user_generation_lock user_id) (\<lambda>was_set.
                 when_prog (\<not> was_set) (block [
                   notify e 663 ''A generation task is already in progress'' user_id,
                   return_prog AlreadyInProgress])),
               bind_prog (read (\<lambda>s. story_chapters (session s) story_id)) (\<lambda>chs.
                 when_prog (chs = [] \<or> int (length chs) < number) (block [
                   clear_user_generation_lock user_id,
                   return_prog ChapterDataNotFound])),
               bind_prog (bind_prog (read session) (\<lambda>d. py_value
                   (predict calculate_predicted_chapter_cost e ''chapter'' d story_id
                      (number - 1))))
                 (\<lambda>(full_prompt, prediction). block [
                    when_prog (\<not> can_spend_credits user ''text'' (of_int (total_cost prediction)))
                      (block [
                        notify e 725 ''You Don't Have Enough Credits!'' user_id,
                        clear_user_generation_lock user_id,
                        return_prog (NotEnoughCredits (of_int (total_cost prediction))
                                       (Some (text_credits user)))]),
                    send_task e 733 745 746 753
                      (\<lambda>tid. GenerateChapterTask tid story_id full_prompt number user_id
                         (input_tokens prediction))
                      (\<lambda>tid. pending_log user_id tid ''chapter''
                         (of_int (total_cost prediction)) None)
                      ''Generating Chapter...'' ''Chapter Generation Failed'' user_id
                      (\<lambda>tid. Queued (Some tid) (of_int (total_cost prediction)))])])]))"




section \<open>Concrete runs\<close>

text \<open>
  Collaborators that never fail: the tokenizer counts 70 tokens for every text, the model
  answers with the empty metadata object of Scenario E, which \<open>json.loads\<close> decodes, and the
  \<open>k\<close>-th task gets the identifier \<open>task-k\<close>.
\<close>

definition scenario_E_text :: string where
  "scenario_E_text =
     ''{'' @ [CHR 0x22] @ ''characters'' @ [CHR 0x22] @ '':[],''
       @ [CHR 0x22] @ ''locations'' @ [CHR 0x22] @ '':[]}''"

definition calm :: env where
  "calm =
     \<lparr>faults = (\<lambda>line k. None),
      completion = (\<lambda>prompt. scenario_E_text),
      json_loads = (\<lambda>text. if text = scenario_E_text
                             then Some (JDict [(''characters'', JList []), (''locations'', JList [])])
                             else None),
      count_tokens = (\<lambda>text. 70),
      render_prompt = (\<lambda>kind d story_id i. Inr ''prompt''),
      new_task_id = (\<lambda>k. ''task-'' @ str_nat k)\<rparr>"


text \<open>
  A database with the default prices, user 1 with the given text and image credits, story 1
  with one chapter and one character, and the given log rows.
\<close>

definition example_db :: "rat \<Rightarrow> rat \<Rightarrow> GenerationLog list \<Rightarrow> database" where
  "example_db text_balance image_balance logs =
     \<lparr>users = [1 \<mapsto> \<lparr>text_credits = text_balance, image_credits = image_balance, audio_credits = 0\<rparr>],
      stories = [1 \<mapsto> \<lparr>chapters_count = 1, cover_image_prompt = None, cover_image_key = None\<rparr>],
      characters = [\<lparr>character_story_id = 1, character_name = JStr ''Ann'',
                     character_description = JNull, character_example_dialogue = JNull\<rparr>],
      locations = [],
      story_arcs = [],
      chapters = [\<lparr>chapter_story_id = 1, chapter_number = 1, chapter_title = JStr ''One'',
                   chapter_summary = JNull, chapter_content = None,
                   chapter_image_prompt = None, chapter_image_key = None\<rparr>],
      chapter_guides = [],
      generation_logs = logs,
      token_cost_config = Some default_token_cost_config,
      credit_config = default_credit_config\<rparr>"

definition example_world :: "rat \<Rightarrow> rat \<Rightarrow> GenerationLog list \<Rightarrow> nat set \<Rightarrow> world" where
  "example_world text_balance image_balance logs locks =
     \<lparr>committed = example_db text_balance image_balance logs,
      session = example_db text_balance image_balance logs,
      locking_queue = locks,
      emitted = [],
      enqueued = [],
      bucket = {}\<rparr>"

text \<open>What a run leaves of the log table, of a user's credits and of the lock.\<close>

definition log_summary :: "world \<Rightarrow> (string \<times> string \<times> rat option) list" where
  "log_summary s =
     map (\<lambda>l. (generation_type l, status l, real_cost l)) (generation_logs (committed s))"

definition credits_of :: "world \<Rightarrow> nat \<Rightarrow> (rat \<times> rat) option" where
  "credits_of s user_id =
     map_option (\<lambda>u. (text_credits u, image_credits u)) (users (committed s) user_id)"

definition lock_held :: "world \<Rightarrow> nat \<Rightarrow> bool" where
  "lock_held s user_id \<longleftrightarrow> user_id \<in> locking_queue s"

section \<open>Notions used in the properties\<close>

text \<open>
  \<open>preserves I m\<close>: the statement \<open>m\<close> ends, however it ends, in a world where \<open>I\<close> holds
  when it starts in one. \<open>on_locks\<close> and \<open>on_tables\<close> build such an \<open>I\<close> from a property of
  the lock table, or of the database as the session and as the other sessions see it.
\<close>

definition preserves :: "(world \<Rightarrow> bool) \<Rightarrow> ('a, 'r) prog \<Rightarrow> bool" where
  "preserves I m \<longleftrightarrow> (\<forall>s. I s \<longrightarrow> I (snd (m s)))"

named_theorems preserves_intros \<open>statements that keep an invariant\<close>

definition on_locks :: "(nat set \<Rightarrow> bool) \<Rightarrow> world \<Rightarrow> bool" where
  "on_locks P s \<longleftrightarrow> P (locking_queue s)"

definition on_tables :: "(database \<Rightarrow> bool) \<Rightarrow> world \<Rightarrow> bool" where
  "on_tables D s \<longleftrightarrow> D (session s) \<and> D (committed s)"










text \<open>What one sees of a run: how it ended, the log table, the credits and lock of a user,
  the tasks sent.\<close>

definition observe ::
  "nat \<Rightarrow> ('a, 'r) res \<times> world \<Rightarrow>
   ('a, 'r) res \<times> (string \<times> string \<times> rat option) list \<times> (rat \<times> rat) option \<times> bool \<times> task list" where
  "observe user_id out =
     (fst out, log_summary (snd out), credits_of (snd out) user_id,
      lock_held (snd out) user_id, enqueued (snd out))"



section \<open>Properties of the estimator\<close>

lemma credit_arithmetic_Inr:
  assumes "credit_arithmetic fl a b c mi mo n m = Inr r"
  shows "b \<noteq> 0" and "c \<noteq> 0" and "py_round_2 (a * 1000000 / b) \<noteq> 0"
    and "py_round_2 (a * 1000000 / c) \<noteq> 0"
    and "input_tokens r = n" and "output_tokens r = m"
    and "input_tokens_per_credit r = py_round_2 (a * 1000000 / b)"
    and "output_tokens_per_credit r = py_round_2 (a * 1000000 / c)"
    and "base_credit_cost_input r =
           (if fl then max 1 (py_round (of_int n / py_round_2 (a * 1000000 / b)))
            else py_round (of_int n / py_round_2 (a * 1000000 / b)))"
    and "modified_credit_cost_input r = py_round (of_int (base_credit_cost_input r) * mi)"
    and "modified_credit_cost_output r = py_round (of_int (base_credit_cost_output r) * mo)"
    and "total_cost r = modified_credit_cost_input r + modified_credit_cost_output r"
  using assms
  by (auto simp: credit_arithmetic_def bind_err_def py_truediv_def Let_def split: if_splits)

lemma credit_arithmetic_returns:
  assumes "b \<noteq> 0" and "c \<noteq> 0" and "py_round_2 (a * 1000000 / b) \<noteq> 0"
    and "py_round_2 (a * 1000000 / c) \<noteq> 0"
  shows "\<exists>r. credit_arithmetic fl a b c mi mo n m = Inr r"
  using assms
  by (simp add: credit_arithmetic_def bind_err_def py_truediv_def Let_def)

lemma base_floor_credit_arithmetic:
  assumes "credit_arithmetic fl a b c mi mo n m = Inr r"
  shows "base_credit_cost_input r =
           (if fl then max 1 (unfloored_base_input r) else unfloored_base_input r)"
  using credit_arithmetic_Inr(5,7,9)[OF assms] by (simp add: unfloored_base_input_def)

lemma base_floor_mini:
  "mini_tier fl tcc mi mo n m = Inr r \<Longrightarrow>
   base_credit_cost_input r = (if fl then max 1 (unfloored_base_input r) else unfloored_base_input r)"
  by (auto simp: mini_tier_def split: option.splits dest: base_floor_credit_arithmetic)

lemma base_floor_o1:
  "o1_tier fl tcc mi mo n m = Inr r \<Longrightarrow>
   base_credit_cost_input r = (if fl then max 1 (unfloored_base_input r) else unfloored_base_input r)"
  by (auto simp: o1_tier_def split: option.splits dest: base_floor_credit_arithmetic)

lemmas estimator_defs =
  calculate_predicted_meta_cost_def calculate_actual_meta_cost_def
  calculate_predicted_summaries_cost_def calculate_actual_summaries_cost_def
  calculate_predicted_story_arcs_cost_def calculate_actual_story_arcs_cost_def
  calculate_predicted_chapter_guide_cost_def calculate_actual_chapter_guide_cost_def
  calculate_predicted_chapter_cost_def calculate_actual_chapter_cost_def





lemma tpc_6660: "py_round_2 (999 / 1000000 * 1000000 / (15 / 100)) = 6660"
  by code_simp

lemma base_2: "py_round (10000 / 6660) = 2"
  by code_simp

lemma mod_100: "py_round (2 * 50) = 100"
  by code_simp

text \<open>
  Claim C5, as amended. Whether the base input cost has a minimum of 1 depends on the
  generation kind, not on the direction: the metadata, story-arcs and chapter-guide
  estimators return \<open>max(1, round(input_tokens / input_tokens_per_credit))\<close> on the prediction
  path and on the reconciliation path, and the chapter-summaries and chapter-content
  estimators return the bare \<open>round(input_tokens / input_tokens_per_credit)\<close> on both.
\<close>

theorem base_cost_floor_by_kind:
  "(\<forall>r \<in> set (floored_estimates tcc cc n m). \<forall>c. r = Inr c \<longrightarrow>
       base_credit_cost_input c = max 1 (unfloored_base_input c)) \<and>
   (\<forall>r \<in> set (unfloored_estimates tcc cc n m k). \<forall>c. r = Inr c \<longrightarrow>
       base_credit_cost_input c = unfloored_base_input c)"
  unfolding floored_estimates_def unfloored_estimates_def estimator_defs
  by (auto dest: base_floor_mini base_floor_o1)

theorem base_cost_floor_by_kind_witness:
  "Inr \<lparr>input_tokens = 1000, output_tokens = 150, input_tokens_per_credit = 6660,
         output_tokens_per_credit = 1665, base_credit_cost_input = 1,
         modified_credit_cost_input = 50, base_credit_cost_output = 1,
         modified_credit_cost_output = 50, total_cost = 100\<rparr>
     \<in> set (floored_estimates (Some default_token_cost_config) default_credit_config 1000 150) \<and>
   base_credit_cost_input
     \<lparr>input_tokens = 1000, output_tokens = 150, input_tokens_per_credit = 6660,
      output_tokens_per_credit = 1665, base_credit_cost_input = 1,
      modified_credit_cost_input = 50, base_credit_cost_output = 1,
      modified_credit_cost_output = 50, total_cost = 100\<rparr>
     = max 1 (unfloored_base_input
         \<lparr>input_tokens = 1000, output_tokens = 150, input_tokens_per_credit = 6660,
          output_tokens_per_credit = 1665, base_credit_cost_input = 1,
          modified_credit_cost_input = 50, base_credit_cost_output = 1,
          modified_credit_cost_output = 50, total_cost = 100\<rparr>) \<and>
   Inr \<lparr>input_tokens = 1000, output_tokens = 300, input_tokens_per_credit = 6660,
         output_tokens_per_credit = 333 / 20, base_credit_cost_input = 0,
         modified_credit_cost_input = 0, base_credit_cost_output = 18,
         modified_credit_cost_output = 36, total_cost = 36\<rparr>
     \<in> set (unfloored_estimates (Some cheap_o1_config) default_credit_config 1000 150 10) \<and>
   base_credit_cost_input
     \<lparr>input_tokens = 1000, output_tokens = 300, input_tokens_per_credit = 6660,
      output_tokens_per_credit = 333 / 20, base_credit_cost_input = 0,
      modified_credit_cost_input = 0, base_credit_cost_output = 18,
      modified_credit_cost_output = 36, total_cost = 36\<rparr>
     = unfloored_base_input
         \<lparr>input_tokens = 1000, output_tokens = 300, input_tokens_per_credit = 6660,
          output_tokens_per_credit = 333 / 20, base_credit_cost_input = 0,
          modified_credit_cost_input = 0, base_credit_cost_output = 18,
          modified_credit_cost_output = 36, total_cost = 36\<rparr>"
proof -
  let ?a = "\<lparr>input_tokens = 1000, output_tokens = 150, input_tokens_per_credit = 6660,
         output_tokens_per_credit = 1665, base_credit_cost_input = 1,
         modified_credit_cost_input = 50, base_credit_cost_output = 1,
         modified_credit_cost_output = 50, total_cost = 100\<rparr>"
  let ?b = "\<lparr>input_tokens = 1000, output_tokens = 300, input_tokens_per_credit = 6660,
         output_tokens_per_credit = 333 / 20, base_credit_cost_input = 0,
         modified_credit_cost_input = 0, base_credit_cost_output = 18,
         modified_credit_cost_output = 36, total_cost = 36\<rparr>"
  have a: "calculate_actual_meta_cost (Some default_token_cost_config) default_credit_config 1000 150
             = Inr ?a"
    by code_simp
  have b: "calculate_predicted_chapter_cost (Some cheap_o1_config) default_credit_config 1000
             = Inr ?b"
    by code_simp
  have ma: "Inr ?a \<in> set (floored_estimates (Some default_token_cost_config) default_credit_config 1000 150)"
    unfolding floored_estimates_def a [symmetric] by simp
  have mb: "Inr ?b \<in> set (unfloored_estimates (Some cheap_o1_config) default_credit_config 1000 150 10)"
    unfolding unfloored_estimates_def b [symmetric] by simp
  note t1 = base_cost_floor_by_kind
    [of "Some default_token_cost_config" default_credit_config 1000 150 0, THEN conjunct1,
     rule_format, OF ma refl]
  note t2 = base_cost_floor_by_kind
    [of "Some cheap_o1_config" default_credit_config 1000 150 10, THEN conjunct2,
     rule_format, OF mb refl]
  from ma mb t1 t2 show ?thesis by blast
qed

text \<open>
  The claim C5 as the specification states it fails in both directions: the summaries and
  chapter predictions give a base input cost of 0 for a 1000-token prompt at 6660 tokens per
  credit, and the metadata reconciliation lifts the rounded 0 to 1.
\<close>

theorem base_cost_floor_counterexample:
  "map_sum id base_credit_cost_input
     (calculate_predicted_summaries_cost (Some cheap_o1_config) default_credit_config 1000 10) = Inr 0 \<and>
   map_sum id base_credit_cost_input
     (calculate_predicted_chapter_cost (Some cheap_o1_config) default_credit_config 1000) = Inr 0 \<and>
   map_sum id (\<lambda>c. (unfloored_base_input c, base_credit_cost_input c))
     (calculate_actual_meta_cost (Some default_token_cost_config) default_credit_config 1000 150) = Inr (0, 1)"
  by code_simp



text \<open>
  Claim C10 (Scenario A). With a dollar price of 0.000999 per credit and 0.150 per million
  input tokens, a 10,000-token metadata prompt is predicted at 6660.0 input tokens per
  credit, a base input cost of 2, and, with the \<open>meta_input\<close> modifier 50, a modified input
  cost of 100. The prediction returns whenever the output price does not make it divide by
  zero.
\<close>

theorem scenario_A_meta_prediction:
  assumes "cost_per_credit t = 999 / 1000000" and "cost_per_1m_input t = 15 / 100"
    and "cc ''meta_input'' = Some 50"
    and "cost_per_1m_output t \<noteq> 0"
    and "py_round_2 (cost_per_credit t * 1000000 / cost_per_1m_output t) \<noteq> 0"
  shows "\<exists>c. calculate_predicted_meta_cost (Some t) cc 10000 = Inr c \<and>
             input_tokens_per_credit c = 6660 \<and> base_credit_cost_input c = 2 \<and>
             modified_credit_cost_input c = 100"
proof -
  let ?tpc = "py_round_2 (cost_per_credit t * 1000000 / cost_per_1m_input t)"
  have tpc: "?tpc = 6660"
    unfolding assms(1,2) by (rule tpc_6660)
  have nz: "cost_per_1m_input t \<noteq> 0" "?tpc \<noteq> 0"
    using assms(2) tpc by simp_all
  obtain c where c:
    "credit_arithmetic True (cost_per_credit t) (cost_per_1m_input t) (cost_per_1m_output t)
       (modifier_or_2 cc ''meta_input'') (modifier_or_2 cc ''meta_output'') 10000 200 = Inr c"
    using credit_arithmetic_returns [OF nz(1) assms(4) nz(2) assms(5)] by blast
  have "input_tokens_per_credit c = 6660"
    using credit_arithmetic_Inr(7) [OF c] tpc by simp
  moreover have b: "base_credit_cost_input c = 2"
    using credit_arithmetic_Inr(9) [OF c] tpc base_2 by simp
  moreover have "modified_credit_cost_input c = 100"
    using credit_arithmetic_Inr(10) [OF c] b assms(3) mod_100 by (simp add: modifier_or_2_def)
  moreover have "calculate_predicted_meta_cost (Some t) cc 10000 = Inr c"
    using c by (simp add: calculate_predicted_meta_cost_def mini_tier_def)
  ultimately show ?thesis by blast
qed

theorem scenario_A_meta_prediction_witness:
  "\<exists>c. calculate_predicted_meta_cost (Some default_token_cost_config) default_credit_config 10000
          = Inr c \<and>
       input_tokens_per_credit c = 6660 \<and> base_credit_cost_input c = 2 \<and>
       modified_credit_cost_input c = 100"
proof -
  have 1: "cost_per_credit default_token_cost_config = 999 / 1000000"
    and 2: "cost_per_1m_input default_token_cost_config = 15 / 100"
    and 3: "default_credit_config ''meta_input'' = Some 50"
    and 4: "cost_per_1m_output default_token_cost_config \<noteq> 0"
    by (simp_all add: default_token_cost_config_def default_credit_config_def)
  have 5: "py_round_2 (cost_per_credit default_token_cost_config * 1000000
             / cost_per_1m_output default_token_cost_config) \<noteq> 0"
    by code_simp
  show ?thesis by (rule scenario_A_meta_prediction
        [of default_token_cost_config default_credit_config, OF 1 2 3 4 5])
qed

section \<open>Invariants of statements\<close>

lemma preservesI: "(\<And>s. I s \<Longrightarrow> I (snd (m s))) \<Longrightarrow> preserves I m"
  by (simp add: preserves_def)

lemma preservesD: "preserves I m \<Longrightarrow> I s \<Longrightarrow> I (snd (m s))"
  by (simp add: preserves_def)

lemma preserves_pure [preserves_intros]: "preserves I (pure_prog x)"
  by (simp add: preserves_def pure_prog_def)

lemma preserves_return [preserves_intros]: "preserves I (return_prog r)"
  by (simp add: preserves_def return_prog_def)

lemma preserves_raise [preserves_intros]: "preserves I (raise_prog msg)"
  by (simp add: preserves_def raise_prog_def)

lemma preserves_read [preserves_intros]: "preserves I (read f)"
  by (simp add: preserves_def read_def)

lemma preserves_py_value [preserves_intros]: "preserves I (py_value r)"
  by (cases r) (simp_all add: py_value_def preserves_raise preserves_pure)

lemma preserves_bind [preserves_intros]:
  assumes "preserves I m" and "\<And>x. preserves I (f x)"
  shows "preserves I (bind_prog m f)"
proof (rule preservesI)
  fix s assume s: "I s"
  obtain r s1 where m: "m s = (r, s1)" by (cases "m s")
  have s1: "I s1" using preservesD [OF assms(1) s] m by simp
  show "I (snd (bind_prog m f s))"
  proof (cases r)
    case (Val x)
    then show ?thesis using preservesD [OF assms(2) s1, of x] m by (simp add: bind_prog_def)
  qed (use m s1 in \<open>simp_all add: bind_prog_def\<close>)
qed

lemma preserves_block_Nil [preserves_intros]: "preserves I (block [])"
  by (simp add: preserves_pure)

lemma preserves_block_Cons [preserves_intros]:
  "preserves I c \<Longrightarrow> preserves I (block cs) \<Longrightarrow> preserves I (block (c # cs))"
  by (simp add: preserves_bind)

lemma preserves_when [preserves_intros]: "preserves I body \<Longrightarrow> preserves I (when_prog c body)"
  by (simp add: when_prog_def preserves_pure)

lemma preserves_for_each [preserves_intros]:
  "(\<And>i x. preserves I (body i x)) \<Longrightarrow> preserves I (for_each k xs body)"
  by (induction xs arbitrary: k) (auto intro: preserves_bind preserves_pure)

lemma preserves_if [preserves_intros]:
  "preserves I a \<Longrightarrow> preserves I b \<Longrightarrow> preserves I (if c then a else b)"
  by simp

lemma preserves_case_option [preserves_intros]:
  "preserves I a \<Longrightarrow> (\<And>x. preserves I (b x)) \<Longrightarrow>
   preserves I (case v of None \<Rightarrow> a | Some x \<Rightarrow> b x)"
  by (cases v) simp_all

lemma preserves_case_prod [preserves_intros]:
  "(\<And>a b. preserves I (f a b)) \<Longrightarrow> preserves I (case p of (a, b) \<Rightarrow> f a b)"
  by (cases p) simp

lemma preserves_modify: "(\<And>s. I s \<Longrightarrow> I (f s)) \<Longrightarrow> preserves I (modify f)"
  by (simp add: preserves_def modify_def)

lemma preserves_call: "(\<And>s. I s \<Longrightarrow> I (f s)) \<Longrightarrow> preserves I (call e line k f)"
  by (simp add: preserves_def call_def split: option.split)

lemma preserves_try_except [preserves_intros]:
  assumes "preserves I body" and "\<And>msg. preserves I (handler msg)"
  shows "preserves I (try_except body handler)"
proof (rule preservesI)
  fix s assume s: "I s"
  obtain r s1 where b: "body s = (r, s1)" by (cases "body s")
  have s1: "I s1" using preservesD [OF assms(1) s] b by simp
  show "I (snd (try_except body handler s))"
  proof (cases r)
    case (Exc msg)
    then show ?thesis using b preservesD [OF assms(2) s1, of msg] by (simp add: try_except_def)
  qed (use b s1 in \<open>simp_all add: try_except_def\<close>)
qed





text \<open>Invariants of the lock table: every statement but the acquisition keeps them.\<close>

lemma on_locks_modify:
  "(\<And>s. locking_queue (f s) = locking_queue s) \<Longrightarrow> preserves (on_locks P) (modify f)"
  by (simp add: preserves_def modify_def on_locks_def)

lemma on_locks_call:
  "(\<And>s. locking_queue (f s) = locking_queue s) \<Longrightarrow> preserves (on_locks P) (call e line k f)"
  by (simp add: preserves_def call_def on_locks_def split: option.split)

lemma on_locks_in_session [preserves_intros]: "preserves (on_locks P) (in_session f)"
  by (simp add: in_session_def on_locks_modify)

lemma on_locks_commit [preserves_intros]: "preserves (on_locks P) (db_session_commit e line k)"
  by (simp add: db_session_commit_def on_locks_call)

lemma on_locks_rollback [preserves_intros]: "preserves (on_locks P) db_session_rollback"
  by (simp add: db_session_rollback_def on_locks_modify)

lemma on_locks_remove [preserves_intros]: "preserves (on_locks P) db_session_remove"
  by (simp add: db_session_remove_def on_locks_modify)

lemma on_locks_emit [preserves_intros]: "preserves (on_locks P) (emit e line ev user_id)"
  by (simp add: emit_def on_locks_call)

lemma on_locks_notify [preserves_intros]: "preserves (on_locks P) (notify e line message user_id)"
  by (simp add: notify_def on_locks_emit)

lemma on_locks_update_log [preserves_intros]: "preserves (on_locks P) (update_log log_entry f)"
  by (cases log_entry) (simp_all add: update_log_def on_locks_in_session preserves_pure)

lemma on_locks_clear:
  "(\<And>X. P X \<Longrightarrow> P (X - {user_id})) \<Longrightarrow>
   preserves (on_locks P) (clear_user_generation_lock user_id)"
  by (simp add: clear_user_generation_lock_def preserves_def modify_def on_locks_def)

text \<open>Invariants of the tables: commit, rollback and everything outside the database keep them.\<close>

lemma on_tables_modify:
  "(\<And>s. session (f s) = session s \<and> committed (f s) = committed s) \<Longrightarrow>
   preserves (on_tables D) (modify f)"
  by (simp add: preserves_def modify_def on_tables_def)

lemma on_tables_call:
  "(\<And>s. session (f s) = session s \<and> committed (f s) = committed s) \<Longrightarrow>
   preserves (on_tables D) (call e line k f)"
  by (simp add: preserves_def call_def on_tables_def split: option.split)


lemma on_tables_commit [preserves_intros]: "preserves (on_tables D) (db_session_commit e line k)"
  by (simp add: db_session_commit_def preserves_def call_def on_tables_def split: option.split)

lemma on_tables_rollback [preserves_intros]: "preserves (on_tables D) db_session_rollback"
  by (simp add: db_session_rollback_def preserves_def modify_def on_tables_def)

lemma on_tables_remove [preserves_intros]: "preserves (on_tables D) db_session_remove"
  by (simp add: db_session_remove_def preserves_def modify_def on_tables_def)

lemma on_tables_emit [preserves_intros]: "preserves (on_tables D) (emit e line ev user_id)"
  by (simp add: emit_def on_tables_call)

lemma on_tables_notify [preserves_intros]: "preserves (on_tables D) (notify e line message user_id)"
  by (simp add: notify_def on_tables_emit)

lemma on_tables_clear [preserves_intros]: "preserves (on_tables D) (clear_user_generation_lock user_id)"
  by (simp add: clear_user_generation_lock_def on_tables_modify)

lemma on_tables_set_lock [preserves_intros]: "preserves (on_tables D) (set_user_generation_lock user_id)"
  by (simp add: set_user_generation_lock_def preserves_def on_tables_def)

text \<open>The compound statements of the views and tasks.\<close>

lemma preserves_get_current_user [preserves_intros]: "preserves I (get_current_user user_id)"
  unfolding get_current_user_def by (intro preserves_intros)

lemma on_locks_spend_credits [preserves_intros]:
  "preserves (on_locks P) (spend_credits e line user_id credit_type cost)"
  unfolding spend_credits_def by (intro preserves_intros)

lemma on_locks_overdraft_guard [preserves_intros]:
  "preserves (on_locks P) (overdraft_guard e line user_id user type)"
  unfolding overdraft_guard_def by (intro preserves_intros)

lemma on_locks_log_failed [preserves_intros]:
  "preserves (on_locks P) (log_failed e line log_entry msg)"
  unfolding log_failed_def by (intro preserves_intros)

lemma on_locks_log_succeeded [preserves_intros]:
  "preserves (on_locks P) (log_succeeded e line log_entry actual_cost model_name)"
  unfolding log_succeeded_def by (intro preserves_intros)

lemma on_locks_actual_cost_of [preserves_intros]:
  "preserves I (actual_cost_of calculate e input_token_count text)"
  unfolding actual_cost_of_def by (intro preserves_intros)

lemma on_locks_send_task:
  "(\<And>X. P X \<Longrightarrow> P (X - {user_id})) \<Longrightarrow>
   preserves (on_locks P)
     (send_task e l_delay l_commit l_notify l_except mk_task mk_log started failed user_id mk_response)"
  unfolding send_task_def
  by (intro preserves_intros on_locks_call on_locks_clear) simp_all

lemma flask_view_locks:
  assumes "preserves (on_locks P) body" and "P (locking_queue s)"
  shows "P (locking_queue (snd (flask_view body s)))"
proof -
  have "on_locks P (new_session s)" using assms(2) by (simp add: on_locks_def new_session_def)
  from preservesD [OF assms(1) this] show ?thesis
    by (cases "body (new_session s)") (simp add: flask_view_def on_locks_def)
qed

section \<open>The generation lock\<close>

subsection \<open>Workers\<close>

lemma task_finally_run:
  "task_finally user_id s =
     (Val (), s\<lparr>locking_queue := locking_queue s - {user_id}, session := committed s\<rparr>)"
  by (simp add: task_finally_def clear_user_generation_lock_def db_session_remove_def
      modify_def bind_prog_def pure_prog_def)

lemma try_except_finally_releases:
  "user_id \<notin> locking_queue (snd (try_except_finally body handler (task_finally user_id) s))"
  by (simp add: try_except_finally_def task_finally_run split: prod.split res.split)


subsection \<open>Views that never take the lock\<close>

lemma cover_image_view_locks:
  "locking_queue (snd (api_generate_cover_image e user_id story_id cover_prompt s))
     \<subseteq> locking_queue s"
  unfolding api_generate_cover_image_def
  by (rule flask_view_locks [where P = "\<lambda>X. X \<subseteq> locking_queue s"];
      (intro preserves_intros on_locks_send_task)?; auto)

lemma chapter_image_view_locks:
  "locking_queue (snd (api_generate_chapter_image e user_id story_id chapter_id chapter_prompt s))
     \<subseteq> locking_queue s"
  unfolding api_generate_chapter_image_def
  by (rule flask_view_locks [where P = "\<lambda>X. X \<subseteq> locking_queue s"];
      (intro preserves_intros on_locks_send_task)?; auto)



lemma image_task_releases:
  "user_id \<notin> locking_queue
     (snd (generate_image_task e tid story_id image_key prompt user_id credit_cost chapter_id s))"
  unfolding generate_image_task_def Let_def by (rule try_except_finally_releases)

text \<open>
  A chapter request of user 1 takes the lock and leaves its job pending; the image task of
  the same user, run next, ends with the lock gone and the chapter job still pending.
\<close>

lemma image_task_drops_the_lock_of_a_chapter_job:
  "observe 1 (api_generate_chapter calm 1 1 1 (example_world 100 100 [] {})) =
     (Ret (Queued (Some ''task-0'') 38), [(''chapter'', ''pending'', None)], Some (100, 100), True,
      [GenerateChapterTask ''task-0'' 1 ''prompt'' 1 1 70]) \<and>
   observe 1 (generate_image_task calm ''task-1'' 1 ''stories/1/cover.jpg'' ''a cover'' 1 4 None
       (snd (api_generate_chapter calm 1 1 1 (example_world 100 100 [] {})))) =
     (Ret ReturnedSuccess, [(''chapter'', ''pending'', None)], Some (100, 96), False,
      [GenerateChapterTask ''task-0'' 1 ''prompt'' 1 1 70])"
  by code_simp

text \<open>
  Claim C4. The image task ends, on every run, in a world where the lock of its user is
  absent, and neither image view ever adds a lock: the locks after a cover-image or
  chapter-image request are among the locks before it. So when a chapter request of user 1
  has taken the lock and its job is pending, the image task of user 1 removes that lock.
\<close>

theorem image_task_releases_a_lock_that_image_views_never_take:
  "user_id \<notin> locking_queue
     (snd (generate_image_task e tid story_id image_key prompt user_id credit_cost chapter_id s)) \<and>
   locking_queue (snd (api_generate_cover_image e user_id story_id prompt s))
     \<subseteq> locking_queue s \<and>
   locking_queue (snd (api_generate_chapter_image e user_id story_id cid prompt s))
     \<subseteq> locking_queue s \<and>
   lock_held (snd (api_generate_chapter calm 1 1 1 (example_world 100 100 [] {}))) 1 \<and>
   \<not> lock_held (snd (generate_image_task calm ''task-1'' 1 ''stories/1/cover.jpg'' ''a cover'' 1 4 None
       (snd (api_generate_chapter calm 1 1 1 (example_world 100 100 [] {}))))) 1"
proof -
  have taken: "lock_held (snd (api_generate_chapter calm 1 1 1 (example_world 100 100 [] {}))) 1"
    using image_task_drops_the_lock_of_a_chapter_job by (simp add: observe_def)
  have dropped:
    "\<not> lock_held (snd (generate_image_task calm ''task-1'' 1 ''stories/1/cover.jpg'' ''a cover'' 1 4
        None (snd (api_generate_chapter calm 1 1 1 (example_world 100 100 [] {}))))) 1"
    using image_task_drops_the_lock_of_a_chapter_job by (simp add: observe_def)
  show ?thesis
    by (intro conjI image_task_releases cover_image_view_locks chapter_image_view_locks
        taken dropped)
qed

subsection \<open>Views that take the lock\<close>











section \<open>Rejected requests and empty results\<close>

text \<open>
  Claim C3 on a concrete request. User 1 has 5 text credits and no image credits, nobody
  holds a lock, and the predicted cost of the summaries of story 1 is 8. The summaries view
  answers with the insufficient-credits error (required 8, available 5), commits no row and
  sends no task, and the lock that it took is still held when it returns. The same user's
  request for chapter 1 (predicted cost 38) is rejected in the same way with the lock
  released. The rejection of a cover-image request (predicted cost 4) carries the required
  amount only.
\<close>

theorem summaries_rejection_keeps_the_lock:
  "observe 1 (api_generate_summaries calm 1 1 (example_world 5 0 [] {})) =
     (Ret (NotEnoughCredits 8 (Some 5)), [], Some (5, 0), True, []) \<and>
   observe 1 (api_generate_chapter calm 1 1 1 (example_world 5 0 [] {})) =
     (Ret (NotEnoughCredits 38 (Some 5)), [], Some (5, 0), False, []) \<and>
   observe 1 (api_generate_cover_image calm 1 1 ''a cover'' (example_world 5 0 [] {})) =
     (Ret (NotEnoughCredits 4 None), [], Some (5, 0), False, [])"
  by code_simp

text \<open>
  Claim C6 on a concrete run. The job of user 1 is pending, the user holds the lock, and the
  model answers with the empty metadata object. The task returns \<open>None\<close> after the failure
  notification: the characters and locations of the story are as before, no credit is
  spent, the lock is released, and the job row is still pending, with no error message.
\<close>

theorem empty_metadata_leaves_the_job_pending:
  "observe 1 (generate_meta_task calm ''t1'' 1 ''p'' 1 70
       (example_world 100 100 [pending_log 1 ''t1'' ''meta'' 100 None] {1})) =
     (Ret ReturnedNone, [(''meta'', ''pending'', None)], Some (100, 100), False, []) \<and>
   map character_name (characters (committed (snd (generate_meta_task calm ''t1'' 1 ''p'' 1 70
       (example_world 100 100 [pending_log 1 ''t1'' ''meta'' 100 None] {1}))))) =
     [JStr ''Ann''] \<and>
   map error_message (generation_logs (committed (snd (generate_meta_task calm ''t1'' 1 ''p'' 1 70
       (example_world 100 100 [pending_log 1 ''t1'' ''meta'' 100 None] {1}))))) =
     [None] \<and>
   emitted (snd (generate_meta_task calm ''t1'' 1 ''p'' 1 70
       (example_world 100 100 [pending_log 1 ''t1'' ''meta'' 100 None] {1}))) =
     [(1, Notification ''Metadata Generation Failed'')]"
  by code_simp

section \<open>The overdraft guard\<close>









section \<open>The log rows\<close>

subsection \<open>Rows that evolve, tables that grow\<close>






subsection \<open>Statements on the log table\<close>












subsection \<open>Workers\<close>









subsection \<open>Views\<close>











end
